theory Spec2Isabelle
  imports Complex_Main "HOL-Library.Sublist" "HOL-Library.Multiset"
    "HOL-Library.Char_ord" "HOL-Library.List_Lexorder" "HOL-Library.Log_Nat"
begin

section \<open>Python strings\<close>

text \<open>
  A Python \<open>str\<close> is modelled as a \<^typ>\<open>string\<close> whose characters are the code points
  0 to 255; the character classes below are Python's on that range. In the scores Python
  floats are modelled as exact \<^typ>\<open>real\<close> numbers: rounding error of that arithmetic
  is not part of the model. The weights that \<open>adjust_weights\<close> stores are modelled as
  binary64 values, with the rounding of each operation.
\<close>

definition code_point :: "char \<Rightarrow> nat" where
  "code_point c = of_char c"

definition isspace :: "char \<Rightarrow> bool" where
  \<comment> \<open>\<open>str.isspace\<close>, which is also the class \<open>\s\<close> of \<open>re\<close> on \<open>str\<close> patterns\<close>
  "isspace c = (let n = code_point c in
     (9 \<le> n \<and> n \<le> 13) \<or> (28 \<le> n \<and> n \<le> 32) \<or> n = 133 \<or> n = 160)"

definition isdigit :: "char \<Rightarrow> bool" where
  \<comment> \<open>the class \<open>\d\<close>: decimal digits\<close>
  "isdigit c = (let n = code_point c in 48 \<le> n \<and> n \<le> 57)"

definition isword :: "char \<Rightarrow> bool" where
  \<comment> \<open>the class \<open>\w\<close>: alphanumeric characters and the underscore\<close>
  "isword c = (let n = code_point c in
     (48 \<le> n \<and> n \<le> 57) \<or> (65 \<le> n \<and> n \<le> 90) \<or> n = 95 \<or> (97 \<le> n \<and> n \<le> 122)
     \<or> n = 170 \<or> n = 178 \<or> n = 179 \<or> n = 181 \<or> n = 185 \<or> n = 186
     \<or> (188 \<le> n \<and> n \<le> 190) \<or> (192 \<le> n \<and> n \<le> 214) \<or> (216 \<le> n \<and> n \<le> 246)
     \<or> 248 \<le> n)"

definition lower_chr :: "char \<Rightarrow> char" where
  "lower_chr c = (let n = code_point c in
     if (65 \<le> n \<and> n \<le> 90) \<or> (192 \<le> n \<and> n \<le> 222 \<and> n \<noteq> 215)
     then char_of (n + 32) else c)"

definition lower :: "string \<Rightarrow> string" where
  \<comment> \<open>\<open>str.lower\<close>\<close>
  "lower s = map lower_chr s"

definition isalpha_ascii :: "char \<Rightarrow> bool" where
  "isalpha_ascii c = (let n = code_point c in (65 \<le> n \<and> n \<le> 90) \<or> (97 \<le> n \<and> n \<le> 122))"

definition upper_chr :: "char \<Rightarrow> char" where
  "upper_chr c = (let n = code_point c in if 97 \<le> n \<and> n \<le> 122 then char_of (n - 32) else c)"

fun title_from :: "bool \<Rightarrow> string \<Rightarrow> string" where
  \<comment> \<open>the flag says whether the previous character was a cased one\<close>
  "title_from prev [] = []"
| "title_from prev (c # cs) =
     (if isalpha_ascii c
      then (if prev then lower_chr c else upper_chr c) # title_from True cs
      else c # title_from False cs)"

definition title :: "string \<Rightarrow> string" where
  \<comment> \<open>\<open>str.title\<close> on strings whose cased characters are ASCII letters, which is what
      the skill vocabulary consists of\<close>
  "title s = title_from False s"

definition strip :: "string \<Rightarrow> string" where
  \<comment> \<open>\<open>str.strip()\<close>\<close>
  "strip s = rev (dropWhile isspace (rev (dropWhile isspace s)))"

section \<open>Scoring engine (\<open>scoring_engine.py\<close>)\<close>

record weights =
  w_skills :: real
  w_experience :: real
  w_education :: real

definition init_weights :: weights where
  \<comment> \<open>\<open>ScoringEngine.__init__\<close>\<close>
  "init_weights = \<lparr>w_skills = 0.5, w_experience = 0.3, w_education = 0.2\<rparr>"

text \<open>
  The dictionaries \<open>resume_data\<close> and \<open>job_requirements\<close>: a key may be absent
  (\<open>None\<close>), and the code reads each key with \<open>.get\<close> and a default. The value under
  \<open>experience_years\<close> goes through \<open>float()\<close>, which raises on a value that is not
  numeric.
\<close>

datatype fieldval = Num real | BadStr | NoneVal

datatype error = ValueError | TypeError

record resume_data =
  r_filename :: string
  r_skills :: "string list option"
  r_experience_years :: "fieldval option"
  r_education :: "string option"

record job_requirements =
  j_required_skills :: "string list option"
  j_experience_years :: "fieldval option"
  j_education_level :: "string option"

fun to_float :: "fieldval \<Rightarrow> error + real" where
  \<comment> \<open>\<open>float(v)\<close>\<close>
  "to_float (Num x) = Inr x"
| "to_float BadStr = Inl ValueError"
| "to_float NoneVal = Inl TypeError"

definition get_or :: "'a option \<Rightarrow> 'a \<Rightarrow> 'a" where
  \<comment> \<open>\<open>d.get(key, default)\<close>\<close>
  "get_or v d = (case v of None \<Rightarrow> d | Some x \<Rightarrow> x)"

subsection \<open>Similarity of two skills\<close>

definition tech_families :: "(string \<times> string list) list" where
  "tech_families =
    [(''javascript'', [''js'', ''node.js'', ''nodejs'', ''react'', ''angular'', ''vue'']),
     (''python'', [''django'', ''flask'', ''pandas'', ''numpy'', ''tensorflow'']),
     (''java'', [''spring'', ''hibernate'', ''maven'', ''gradle'']),
     (''database'', [''sql'', ''mysql'', ''postgresql'', ''oracle'', ''mongodb'']),
     (''cloud'', [''aws'', ''azure'', ''gcp'', ''docker'', ''kubernetes''])]"

definition family_hit :: "string \<Rightarrow> string \<Rightarrow> string \<times> string list \<Rightarrow> bool" where
  \<comment> \<open>the condition tested for one entry of \<open>tech_families\<close>\<close>
  "family_hit s1 s2 fam = (case fam of (family, related_skills) \<Rightarrow>
     (s1 = family \<and> s2 \<in> set related_skills) \<or>
     (s2 = family \<and> s1 \<in> set related_skills) \<or>
     (s1 \<in> set related_skills \<and> s2 \<in> set related_skills))"

fun family_loop :: "string \<Rightarrow> string \<Rightarrow> (string \<times> string list) list \<Rightarrow> bool" where
  \<comment> \<open>the \<open>for\<close> loop over the families; \<open>True\<close> when it returns 0.7\<close>
  "family_loop s1 s2 [] = False"
| "family_loop s1 s2 (fam # fams) =
     (if family_hit s1 s2 fam then True else family_loop s1 s2 fams)"

definition skills_similarity :: "string \<Rightarrow> string \<Rightarrow> real" where
  "skills_similarity skill1 skill2 =
     (let skill1_lower = lower skill1; skill2_lower = lower skill2 in
      if skill1_lower = skill2_lower then 1
      else if sublist skill1_lower skill2_lower \<or> sublist skill2_lower skill1_lower then 0.8
      else if family_loop skill1_lower skill2_lower tech_families then 0.7
      else (let common_chars = set skill1_lower \<inter> set skill2_lower;
                total_chars = set skill1_lower \<union> set skill2_lower in
            if card total_chars > 0
            then real (card common_chars) / real (card total_chars)
            else 0))"

subsection \<open>Component scores\<close>

fun has_similar :: "string \<Rightarrow> string list \<Rightarrow> bool" where
  \<comment> \<open>the inner loop of the fuzzy match: stops at the first similar skill\<close>
  "has_similar req_skill [] = False"
| "has_similar req_skill (resume_skill # rest) =
     (if skills_similarity req_skill resume_skill > 0.7 then True
      else has_similar req_skill rest)"

fun fuzzy_loop :: "string list \<Rightarrow> string list \<Rightarrow> real \<Rightarrow> real" where
  \<comment> \<open>the outer loop, with \<open>fuzzy_matches\<close> as the accumulator\<close>
  "fuzzy_loop [] resume_skills fuzzy_matches = fuzzy_matches"
| "fuzzy_loop (req_skill # rest) resume_skills fuzzy_matches =
     fuzzy_loop rest resume_skills
       (if req_skill \<notin> set resume_skills
        then (if has_similar req_skill resume_skills
              then fuzzy_matches + 0.8 else fuzzy_matches)
        else fuzzy_matches)"

definition score_skills :: "resume_data \<Rightarrow> job_requirements \<Rightarrow> real" where
  "score_skills resume job =
     (let resume_skills = map lower (get_or (r_skills resume) []);
          required_skills = map lower (get_or (j_required_skills job) []) in
      if required_skills = [] then 80
      else
        let exact_matches = length (filter (\<lambda>skill. skill \<in> set resume_skills) required_skills);
            exact_match_score = (real exact_matches / real (length required_skills)) * 100;
            fuzzy_matches = fuzzy_loop required_skills resume_skills 0;
            fuzzy_match_score = (fuzzy_matches / real (length required_skills)) * 100;
            combined_score = min (exact_match_score + fuzzy_match_score * 0.5) 100;
            skill_bonus = (if length resume_skills > 10
                           then min (real (length resume_skills * 2)) 20 else 0)
        in min (combined_score + skill_bonus) 100)"

definition score_experience :: "resume_data \<Rightarrow> job_requirements \<Rightarrow> error + real" where
  "score_experience resume job =
     (case to_float (get_or (r_experience_years resume) (Num 0)) of
        Inl e \<Rightarrow> Inl e
      | Inr resume_experience \<Rightarrow>
     (case to_float (get_or (j_experience_years job) (Num 0)) of
        Inl e \<Rightarrow> Inl e
      | Inr required_experience \<Rightarrow>
          if required_experience = 0 then Inr 100
          else if resume_experience \<ge> required_experience
          then (let base_score = 100;
                    bonus = min ((resume_experience - required_experience) * 5) 20
                in Inr (min (base_score + bonus) 100))
          else (let ratio = resume_experience / required_experience
                in Inr (max (ratio * 80) 10))))"

definition education_levels :: "(string \<times> nat) list" where
  "education_levels =
    [(''High School'', 1), (''Certificate/Diploma'', 2), (''Bachelor's Degree'', 3),
     (''Master's Degree'', 4), (''PhD'', 5)]"

definition score_education :: "resume_data \<Rightarrow> job_requirements \<Rightarrow> real" where
  "score_education resume job =
     (let resume_education = get_or (r_education resume) ''Not specified'';
          required_education = get_or (j_education_level job) ''High School'';
          resume_level = get_or (map_of education_levels resume_education) 1;
          required_level = get_or (map_of education_levels required_education) 1 in
      if resume_level \<ge> required_level
      then (let base_score = 100;
                bonus = max ((real resume_level - real required_level) * 10) 0
            in min (base_score + bonus) 100)
      else (let ratio = real resume_level / real required_level
            in max (ratio * 70) 30))"

subsection \<open>Total score and recommendation\<close>

definition round1 :: "real \<Rightarrow> real" where
  \<comment> \<open>\<open>round(x, 1)\<close>: to one decimal, a tie going to the even digit\<close>
  "round1 x = (let y = x * 10; f = \<lfloor>y\<rfloor>; d = y - of_int f in
     of_int (if d < 1/2 then f else if d > 1/2 then f + 1
             else if even f then f else f + 1) / 10)"

datatype recommendation =
    StrongMatch    \<comment> \<open>"Strong Match - Highly Recommended"\<close>
  | GoodMatch      \<comment> \<open>"Good Match - Recommended"\<close>
  | FairMatch      \<comment> \<open>"Fair Match - Consider with reservations"\<close>
  | PoorMatch      \<comment> \<open>"Poor Match - Not recommended"\<close>
  | VeryPoorMatch  \<comment> \<open>"Very Poor Match - Reject"\<close>

definition generate_recommendation :: "real \<Rightarrow> recommendation" where
  "generate_recommendation total_score =
     (if total_score \<ge> 85 then StrongMatch
      else if total_score \<ge> 70 then GoodMatch
      else if total_score \<ge> 55 then FairMatch
      else if total_score \<ge> 40 then PoorMatch
      else VeryPoorMatch)"

text \<open>
  The dictionary \<open>score_resume\<close> returns. The three lists of the skill analysis
  (\<open>matched_skills\<close>, \<open>missing_skills\<close>, \<open>additional_skills\<close>) are left out: they
  are computed from the same lower-cased skill lists after the three scores, raise on no
  input the scores accept, and do not enter the total or the recommendation.
\<close>

record score_data =
  total_score :: real
  skills_score :: real
  experience_score :: real
  education_score :: real
  recommendation :: recommendation

definition weighted_total :: "weights \<Rightarrow> real \<Rightarrow> real \<Rightarrow> real \<Rightarrow> real" where
  "weighted_total w s e d = s * w_skills w + e * w_experience w + d * w_education w"

definition score_resume :: "weights \<Rightarrow> resume_data \<Rightarrow> job_requirements \<Rightarrow> error + score_data" where
  "score_resume w resume job =
     (let skills = score_skills resume job in
      case score_experience resume job of
        Inl e \<Rightarrow> Inl e
      | Inr experience \<Rightarrow>
          let education = score_education resume job;
              total = weighted_total w skills experience education
          in Inr \<lparr>total_score = round1 total,
                  skills_score = round1 skills,
                  experience_score = round1 experience,
                  education_score = round1 education,
                  recommendation = generate_recommendation total\<rparr>)"

subsection \<open>Batch scoring\<close>

type_synonym scored_resume = "resume_data \<times> score_data"

fun score_each :: "weights \<Rightarrow> resume_data list \<Rightarrow> job_requirements \<Rightarrow> scored_resume list" where
  \<comment> \<open>the \<open>for\<close> loop with its \<open>try\<close>: a resume whose scoring raises is skipped\<close>
  "score_each w [] job = []"
| "score_each w (resume # rest) job =
     (case score_resume w resume job of
        Inl e \<Rightarrow> score_each w rest job
      | Inr sd \<Rightarrow> (resume, sd) # score_each w rest job)"

definition batch_score_resumes :: "weights \<Rightarrow> resume_data list \<Rightarrow> job_requirements \<Rightarrow> scored_resume list" where
  \<comment> \<open>\<open>list.sort(key=..., reverse=True)\<close> is stable: equal totals keep their order\<close>
  "batch_score_resumes w resumes job =
     sort_key (\<lambda>x. - total_score (snd x)) (score_each w resumes job)"

subsection \<open>Weights as stored floats\<close>



definition round_half_even :: "real \<Rightarrow> int" where
  "round_half_even y = (let f = \<lfloor>y\<rfloor>; d = y - of_int f in
     if d < 1 / 2 then f else if d > 1 / 2 then f + 1
     else if even f then f else f + 1)"










section \<open>Field extractor (\<open>nlp_extractor.py\<close>)\<close>

subsection \<open>Text normalisation\<close>

function collapse_whitespace :: "string \<Rightarrow> string" where
  \<comment> \<open>\<open>re.sub(r'\s+', ' ', text)\<close>: each maximal run of whitespace becomes one space\<close>
  "collapse_whitespace [] = []"
| "collapse_whitespace (c # cs) =
     (if isspace c then CHR '' '' # collapse_whitespace (dropWhile isspace cs)
      else c # collapse_whitespace cs)"
  by pat_completeness auto
termination
  by (relation "measure length") (auto simp: length_dropWhile_le less_Suc_eq_le)

definition clean_text :: "string \<Rightarrow> string" where
  "clean_text text = strip (collapse_whitespace text)"

subsection \<open>Regular expressions with one capturing group\<close>

text \<open>
  The fragment of \<open>re\<close> that the phone patterns use: character classes, sequence, the
  greedy optional \<open>?\<close>, bounded repetition (built from these) and one capturing group.
  \<open>rx_run p s g\<close> lists the ways \<open>p\<close> matches a prefix of \<open>s\<close> in the order in
  which the backtracking matcher tries them, each as the remaining text and the content of
  the group (\<open>None\<close> while the group has not taken part).
\<close>

datatype rx = Eps | Cls "char \<Rightarrow> bool" | Seq rx rx | Opt rx | Grp rx

fun rx_run :: "rx \<Rightarrow> string \<Rightarrow> string option \<Rightarrow> (string \<times> string option) list" where
  "rx_run Eps s g = [(s, g)]"
| "rx_run (Cls p) s g = (case s of [] \<Rightarrow> [] | c # cs \<Rightarrow> if p c then [(cs, g)] else [])"
| "rx_run (Seq a b) s g = concat (map (\<lambda>(r, g'). rx_run b r g') (rx_run a s g))"
| "rx_run (Opt a) s g = rx_run a s g @ [(s, g)]"
| "rx_run (Grp a) s g =
     map (\<lambda>(r, _). (r, Some (take (length s - length r) s))) (rx_run a s g)"

fun rep :: "nat \<Rightarrow> rx \<Rightarrow> rx" where
  \<comment> \<open>\<open>p{n}\<close>\<close>
  "rep 0 p = Eps"
| "rep (Suc n) p = Seq p (rep n p)"

fun rep_upto :: "nat \<Rightarrow> rx \<Rightarrow> rx" where
  \<comment> \<open>\<open>p{0,n}\<close>, greedy\<close>
  "rep_upto 0 p = Eps"
| "rep_upto (Suc n) p = Opt (Seq p (rep_upto n p))"

definition seqs :: "rx list \<Rightarrow> rx" where
  "seqs ps = foldr Seq ps Eps"

function findall :: "rx \<Rightarrow> string \<Rightarrow> string list" where
  \<comment> \<open>\<open>re.findall\<close> for a pattern with one group: the group's content for each match from
      left to right, the empty string where the group took no part; the scan resumes
      at the end of a match, one character further after a failure or an empty match\<close>
  "findall p s =
     (case rx_run p s None of
        [] \<Rightarrow> (case s of [] \<Rightarrow> [] | c # cs \<Rightarrow> findall p cs)
      | (r, g) # _ \<Rightarrow>
          get_or g [] #
            (if length r < length s then findall p r
             else (case s of [] \<Rightarrow> [] | c # cs \<Rightarrow> findall p cs)))"
  by pat_completeness auto
termination
  by (relation "measure (\<lambda>(p, s). length s)") auto

subsection \<open>Phone\<close>

definition digit :: rx where
  "digit = Cls isdigit"

definition sep_opt :: rx where
  \<comment> \<open>\<open>[-.\s]?\<close>\<close>
  "sep_opt = Opt (Cls (\<lambda>c. c = CHR ''-'' \<or> c = CHR ''.'' \<or> isspace c))"

definition country_code :: rx where
  \<comment> \<open>\<open>(\+\d{1,3}[-.\s]?)?\<close>\<close>
  "country_code =
     Opt (Grp (seqs [Cls (\<lambda>c. c = CHR ''+''), digit, rep_upto 2 digit, sep_opt]))"

definition phone_patterns :: "rx list" where
  "phone_patterns =
    [seqs [country_code, Opt (Cls (\<lambda>c. c = CHR ''('')), rep 3 digit,
           Opt (Cls (\<lambda>c. c = CHR '')'')), sep_opt, rep 3 digit, sep_opt, rep 4 digit],
     seqs [country_code, rep 3 digit, sep_opt, rep 3 digit, sep_opt, rep 4 digit],
     seqs [country_code, rep 10 digit]]"

fun phone_loop :: "rx list \<Rightarrow> string \<Rightarrow> string" where
  "phone_loop [] text = ''Phone not found''"
| "phone_loop (pattern # rest) text =
     (case findall pattern text of
        [] \<Rightarrow> phone_loop rest text
      | phone # _ \<Rightarrow> phone)"

definition extract_phone :: "string \<Rightarrow> string" where
  "extract_phone text = phone_loop phone_patterns text"

subsection \<open>Education\<close>

definition education_keywords :: "(string \<times> nat) list" where
  \<comment> \<open>in the order of the dictionary literal, which is the order of iteration\<close>
  "education_keywords =
    [(''phd'', 4), (''doctorate'', 4), (''ph.d'', 4),
     (''master'', 3), (''masters'', 3), (''mba'', 3), (''ms'', 3), (''ma'', 3),
     (''m.s'', 3), (''m.a'', 3),
     (''bachelor'', 2), (''bachelors'', 2), (''bs'', 2), (''ba'', 2), (''b.s'', 2),
     (''b.a'', 2), (''be'', 2), (''b.e'', 2),
     (''associate'', 1), (''diploma'', 1), (''certificate'', 1),
     (''high school'', 0), (''secondary'', 0), (''graduation'', 0)]"

definition format_education_level :: "nat \<Rightarrow> string" where
  "format_education_level level =
     get_or (map_of [(0, ''High School''), (1, ''Certificate/Diploma''),
                     (2, ''Bachelor's Degree''), (3, ''Master's Degree''), (4, ''PhD'')] level)
       ''Not specified''"

fun education_loop :: "(string \<times> nat) list \<Rightarrow> string \<Rightarrow> nat \<times> string \<Rightarrow> nat \<times> string" where
  \<comment> \<open>the state is \<open>(highest_level, highest_education)\<close>\<close>
  "education_loop [] text_lower st = st"
| "education_loop ((education, level) # rest) text_lower (highest_level, highest_education) =
     education_loop rest text_lower
       (if sublist education text_lower
        then (if level > highest_level
              then (level, format_education_level level)
              else (highest_level, highest_education))
        else (highest_level, highest_education))"

definition extract_education :: "string \<Rightarrow> string" where
  "extract_education text =
     snd (education_loop education_keywords (lower text) (0, ''Not specified''))"

subsection \<open>Skills\<close>

definition skill_keywords :: "string list" where
  "skill_keywords =
    [''python'', ''java'', ''javascript'', ''typescript'', ''c++'', ''c#'', ''php'',
     ''ruby'', ''go'', ''rust'', ''swift'', ''kotlin'', ''scala'', ''r'', ''matlab'',
     ''perl'', ''shell'', ''bash'', ''powershell'', ''html'', ''css'', ''react'',
     ''angular'', ''vue'', ''node.js'', ''express'', ''django'', ''flask'', ''spring'',
     ''laravel'', ''rails'', ''asp.net'', ''jquery'', ''bootstrap'', ''sass'', ''less'',
     ''sql'', ''mysql'', ''postgresql'', ''oracle'', ''mongodb'', ''redis'',
     ''elasticsearch'', ''cassandra'', ''dynamodb'', ''sqlite'', ''mariadb'', ''aws'',
     ''azure'', ''gcp'', ''docker'', ''kubernetes'', ''jenkins'', ''git'', ''gitlab'',
     ''github'', ''terraform'', ''ansible'', ''chef'', ''puppet'', ''ci/cd'', ''devops'',
     ''machine learning'', ''deep learning'', ''artificial intelligence'',
     ''data science'', ''pandas'', ''numpy'', ''scikit-learn'', ''tensorflow'',
     ''pytorch'', ''keras'', ''opencv'', ''nlp'', ''computer vision'', ''statistics'',
     ''data analysis'', ''big data'', ''hadoop'', ''spark'', ''android'', ''ios'',
     ''react native'', ''flutter'', ''xamarin'', ''cordova'', ''ionic'', ''microservices'',
     ''api'', ''rest'', ''graphql'', ''soap'', ''json'', ''xml'', ''agile'', ''scrum'',
     ''kanban'', ''jira'', ''confluence'', ''slack'', ''linux'', ''windows'', ''macos'',
     ''communication'', ''leadership'', ''teamwork'', ''problem solving'',
     ''analytical thinking'', ''project management'', ''time management'',
     ''adaptability'', ''creativity'', ''innovation'']"

definition is_word_at :: "char option \<Rightarrow> bool" where
  \<comment> \<open>whether a position holds a word character; the ends of the text do not\<close>
  "is_word_at c = (case c of None \<Rightarrow> False | Some x \<Rightarrow> isword x)"

definition word_boundary :: "char option \<Rightarrow> char option \<Rightarrow> bool" where
  \<comment> \<open>\<open>\b\<close> between the characters before and after a position\<close>
  "word_boundary before after = (is_word_at before \<noteq> is_word_at after)"

definition first_char :: "string \<Rightarrow> char option" where
  "first_char s = (case s of [] \<Rightarrow> None | c # _ \<Rightarrow> Some c)"

definition match_word_at :: "string \<Rightarrow> char option \<Rightarrow> string \<Rightarrow> bool" where
  \<comment> \<open>\<open>\b\<close>, the literal \<open>kw\<close>, \<open>\b\<close> at the start of \<open>s\<close>, with \<open>prev\<close> the
      character before \<open>s\<close>\<close>
  "match_word_at kw prev s =
     (if prefix kw s
      then word_boundary prev (first_char s) \<and>
           word_boundary (if kw = [] then prev else Some (last kw))
                         (first_char (drop (length kw) s))
      else False)"

fun search_word_from :: "string \<Rightarrow> char option \<Rightarrow> string \<Rightarrow> bool" where
  "search_word_from kw prev [] = match_word_at kw prev []"
| "search_word_from kw prev (c # cs) =
     (match_word_at kw prev (c # cs) \<or> search_word_from kw (Some c) cs)"

definition search_word :: "string \<Rightarrow> string \<Rightarrow> bool" where
  \<comment> \<open>\<open>re.search(r'\b' + re.escape(kw) + r'\b', text)\<close> finds a match\<close>
  "search_word kw text = search_word_from kw None text"

definition extract_skills :: "string \<Rightarrow> string list" where
  \<comment> \<open>the distinct elements of \<open>set(found_skills)\<close> in sorted order do not depend on
      the order in which the set is listed\<close>
  "extract_skills text =
     (let text_lower = lower text;
          found_skills = map title
            (filter (\<lambda>skill. search_word (lower skill) text_lower) skill_keywords)
      in take 50 (sort (remdups found_skills)))"

section \<open>The specification's formulas\<close>

text \<open>
  The skills score as the specification words it, over the lower-cased candidate skills
  \<open>cand\<close> and required skills \<open>req\<close>: counts of required skills instead of loops.
\<close>

definition exact_score_spec :: "string list \<Rightarrow> string list \<Rightarrow> real" where
  "exact_score_spec cand req =
     100 * real (length (filter (\<lambda>q. q \<in> set cand) req)) / real (length req)"

definition fuzzy_credits_spec :: "string list \<Rightarrow> string list \<Rightarrow> real" where
  "fuzzy_credits_spec cand req =
     0.8 * real (length (filter
       (\<lambda>q. q \<notin> set cand \<and> (\<exists>c \<in> set cand. skills_similarity q c > 0.7)) req))"

definition skills_score_spec :: "string list \<Rightarrow> string list \<Rightarrow> real" where
  "skills_score_spec cand req =
     (if req = [] then 80
      else let fuzzy_score = 100 * fuzzy_credits_spec cand req / real (length req);
               bonus = (if length cand > 10 then min (real (length cand) * 2) 20 else 0)
           in min (min (exact_score_spec cand req + fuzzy_score * 0.5) 100 + bonus) 100)"

section \<open>Example data\<close>

definition mk_resume :: "string list \<Rightarrow> fieldval \<Rightarrow> string \<Rightarrow> resume_data" where
  "mk_resume sk yrs edu =
     \<lparr>r_filename = ''cv.pdf'', r_skills = Some sk, r_experience_years = Some yrs,
      r_education = Some edu\<rparr>"

definition mk_job :: "string list \<Rightarrow> real \<Rightarrow> string \<Rightarrow> job_requirements" where
  "mk_job sk yrs edu =
     \<lparr>j_required_skills = Some sk, j_experience_years = Some (Num yrs),
      j_education_level = Some edu\<rparr>"

definition ten_skills :: "string list" where
  "ten_skills = [''a'', ''b'', ''c'', ''d'', ''e'', ''f'', ''g'', ''h'', ''i'', ''j'']"

definition skills_only :: weights where
  \<comment> \<open>all the weight on the skills score\<close>
  "skills_only = \<lparr>w_skills = 1, w_experience = 0, w_education = 0\<rparr>"

definition letters_job :: job_requirements where
  "letters_job = mk_job ten_skills 0 ''High School''"

definition cand40 :: resume_data where
  "cand40 = mk_resume (take 4 ten_skills) (Num 1) ''PhD''"

definition cand90 :: resume_data where
  "cand90 = mk_resume (take 9 ten_skills) (Num 1) ''PhD''"

definition cand70 :: resume_data where
  "cand70 = mk_resume (take 7 ten_skills) (Num 1) ''PhD''"

definition cand_bad :: resume_data where
  "cand_bad = mk_resume ten_skills BadStr ''PhD''"

definition near85_resume :: resume_data where
  "near85_resume = mk_resume [''Python''] (Num 6.24) ''PhD''"

definition near85_job :: job_requirements where
  "near85_job = mk_job [''python''] 10 ''PhD''"

definition near70_resume :: resume_data where
  "near70_resume = mk_resume [''Python''] (Num 4.15) ''PhD''"

definition near70_job :: job_requirements where
  "near70_job = mk_job [] 10 ''PhD''"

definition near55_resume :: resume_data where
  "near55_resume = mk_resume [''Python''] (Num 3.7375) ''High School''"

definition near55_job :: job_requirements where
  "near55_job = mk_job [] 10 ''PhD''"

definition near40_resume :: resume_data where
  "near40_resume = mk_resume [''Python''] (Num 3.7375) ''High School''"

definition near40_job :: job_requirements where
  "near40_job = mk_job [''python'', ''sql''] 10 ''PhD''"

text \<open>
  Normalisation as the specification words it: the words of the text (its maximal runs of
  characters that are not whitespace), joined by single spaces.
\<close>

function split_words :: "string \<Rightarrow> string list" where
  "split_words [] = []"
| "split_words (c # cs) =
     (if isspace c then split_words cs
      else (c # takeWhile (\<lambda>x. \<not> isspace x) cs) # split_words (dropWhile (\<lambda>x. \<not> isspace x) cs))"
  by pat_completeness auto
termination
  by (relation "measure length") (auto simp: length_dropWhile_le less_Suc_eq_le)

fun join_space :: "string list \<Rightarrow> string" where
  "join_space [] = []"
| "join_space (w # ws) = w @ concat (map (\<lambda>x. CHR '' '' # x) ws)"

text \<open>
  A whole-word occurrence as the specification words it: the term stands in the text with
  no word character directly before it and none directly after it.
\<close>

definition delimited_at :: "string \<Rightarrow> char option \<Rightarrow> string \<Rightarrow> bool" where
  "delimited_at kw prev s =
     (if prefix kw s
      then \<not> is_word_at prev \<and> \<not> is_word_at (first_char (drop (length kw) s))
      else False)"

fun whole_word_from :: "string \<Rightarrow> char option \<Rightarrow> string \<Rightarrow> bool" where
  "whole_word_from kw prev [] = delimited_at kw prev []"
| "whole_word_from kw prev (c # cs) =
     (delimited_at kw prev (c # cs) \<or> whole_word_from kw (Some c) cs)"

definition whole_word_occurs :: "string \<Rightarrow> string \<Rightarrow> bool" where
  "whole_word_occurs kw text = whole_word_from kw None text"

definition rstrip :: "string \<Rightarrow> string" where
  \<comment> \<open>the second half of \<open>strip\<close>: trailing whitespace removed\<close>
  "rstrip s = rev (dropWhile isspace (rev s))"

section \<open>Properties of the scoring engine\<close>

subsection \<open>Experience score\<close>

text \<open>
  Claim C3. With numeric experience values on both sides, the experience score is 100 when
  the job requires 0 years, 100 when the candidate has at least the required years
  (whatever the excess: the bonus is absorbed by the cap), and
  \<open>max (candidate / required * 80) 10\<close> when the candidate is below the requirement.
\<close>

theorem score_experience_cases:
  assumes "to_float (get_or (r_experience_years resume) (Num 0)) = Inr candidate_years"
    and "to_float (get_or (j_experience_years job) (Num 0)) = Inr required_years"
  shows "score_experience resume job =
     Inr (if required_years = 0 then 100
          else if candidate_years \<ge> required_years then 100
          else max (candidate_years / required_years * 80) 10)"
  using assms by (auto simp: score_experience_def Let_def)

theorem score_experience_cases_witness:
  "score_experience (mk_resume [] (Num 3) ''PhD'') (mk_job [] 0 ''PhD'') = Inr 100
   \<and> score_experience (mk_resume [] (Num 25) ''PhD'') (mk_job [] 5 ''PhD'') = Inr 100
   \<and> score_experience (mk_resume [] (Num 3) ''PhD'') (mk_job [] 5 ''PhD'') = Inr 48"
  using score_experience_cases [of "mk_resume [] (Num 3) ''PhD''" 3 "mk_job [] 0 ''PhD''" 0]
    score_experience_cases [of "mk_resume [] (Num 25) ''PhD''" 25 "mk_job [] 5 ''PhD''" 5]
    score_experience_cases [of "mk_resume [] (Num 3) ''PhD''" 3 "mk_job [] 5 ''PhD''" 5]
  by (simp add: mk_resume_def mk_job_def get_or_def)

subsection \<open>Skills score\<close>

lemma has_similar_iff:
  "has_similar q cs \<longleftrightarrow> (\<exists>c \<in> set cs. skills_similarity q c > 0.7)"
  by (induction cs) auto

lemma fuzzy_loop_count:
  "fuzzy_loop req cand acc =
     acc + 0.8 * real (length (filter (\<lambda>q. q \<notin> set cand \<and> has_similar q cand) req))"
  by (induction req arbitrary: acc) (auto simp: algebra_simps)

text \<open>
  Claim C4. The skills score computed by the loops of \<open>_score_skills\<close> is the
  specification's formula: 80 without required skills, otherwise
  \<open>min (min (exact + fuzzy * 0.5) 100 + bonus) 100\<close> with one credit of 0.8 for each
  required skill that is absent verbatim and has a candidate skill of similarity above 0.7.
\<close>

theorem score_skills_formula:
  "score_skills resume job =
     skills_score_spec (map lower (get_or (r_skills resume) []))
                       (map lower (get_or (j_required_skills job) []))"
proof -
  define cand where "cand = map lower (get_or (r_skills resume) [])"
  define req where "req = map lower (get_or (j_required_skills job) [])"
  have fuzzy: "fuzzy_loop req cand 0 = fuzzy_credits_spec cand req"
    by (simp add: fuzzy_loop_count fuzzy_credits_spec_def has_similar_iff)
  have exact:
    "real (length (filter (\<lambda>skill. skill \<in> set cand) req)) / real (length req) * 100
      = exact_score_spec cand req"
    by (simp add: exact_score_spec_def)
  have "score_skills resume job =
     (if req = [] then 80
      else min (min (real (length (filter (\<lambda>skill. skill \<in> set cand) req))
                       / real (length req) * 100
                     + fuzzy_loop req cand 0 / real (length req) * 100 * 0.5) 100
                + (if length cand > 10 then min (real (length cand * 2)) 20 else 0)) 100)"
    unfolding score_skills_def Let_def cand_def req_def by (rule refl)
  also have "\<dots> = skills_score_spec cand req"
    unfolding fuzzy exact skills_score_spec_def Let_def by (simp add: mult.commute)
  finally show ?thesis unfolding cand_def req_def .
qed

theorem score_skills_formula_witness:
  "score_skills (mk_resume [''Python'', ''Java''] (Num 2) ''PhD'')
                (mk_job [''python'', ''javascript'', ''aws''] 2 ''PhD'')
     = skills_score_spec [''python'', ''java''] [''python'', ''javascript'', ''aws'']
   \<and> skills_score_spec [''python'', ''java''] [''python'', ''javascript'', ''aws''] = 140 / 3
   \<and> score_skills (mk_resume [''Python''] (Num 2) ''PhD'') (mk_job [] 2 ''PhD'') = 80"
proof -
  have l: "map lower [''Python'', ''Java''] = [''python'', ''java'']"
    "map lower [''python'', ''javascript'', ''aws''] = [''python'', ''javascript'', ''aws'']"
    by code_simp+
  have v: "skills_score_spec [''python'', ''java''] [''python'', ''javascript'', ''aws''] = 140 / 3"
    by code_simp
  have e: "skills_score_spec (map lower [''Python'']) [] = 80"
    by (simp add: skills_score_spec_def)
  show ?thesis
    using score_skills_formula [of "mk_resume [''Python'', ''Java''] (Num 2) ''PhD''"
        "mk_job [''python'', ''javascript'', ''aws''] 2 ''PhD''"]
      score_skills_formula [of "mk_resume [''Python''] (Num 2) ''PhD''" "mk_job [] 2 ''PhD''"]
      l v e
    by (simp add: mk_resume_def mk_job_def get_or_def)
qed

subsection \<open>Weights\<close>


lemma pow2_pos [simp]: "(0::real) < 2 powi a"
  by simp









lemma round_half_even_near:
  assumes "\<bar>y - of_int m\<bar> < 1 / 2"
  shows "round_half_even y = m"
proof -
  have "\<lfloor>y\<rfloor> = m \<or> \<lfloor>y\<rfloor> = m - 1" using assms by linarith
  then show ?thesis
    using assms unfolding round_half_even_def Let_def by (auto; linarith)
qed


lemma round_half_even_int [simp]: "round_half_even (of_int m) = m"
  by (rule round_half_even_near) simp


















































subsection \<open>Similarity\<close>

lemma family_hit_sym: "family_hit a b fam = family_hit b a fam"
  by (auto simp: family_hit_def split: prod.splits)

lemma family_loop_sym: "family_loop a b fams = family_loop b a fams"
  by (induction fams) (auto simp: family_hit_sym)

lemma skills_similarity_sym: "skills_similarity a b = skills_similarity b a"
  by (simp add: skills_similarity_def Let_def family_loop_sym [of "lower a"]
      Int_commute Un_commute eq_commute [of "lower a"] disj_commute)

lemma skills_similarity_range: "0 \<le> skills_similarity a b \<and> skills_similarity a b \<le> 1"
proof -
  have "card (set (lower a) \<inter> set (lower b)) \<le> card (set (lower a) \<union> set (lower b))"
    by (rule card_mono) auto
  then show ?thesis
    by (auto simp: skills_similarity_def Let_def divide_le_eq_1)
qed

text \<open>
  Claim C7. The similarity of two skills lies between 0 and 1, the similarity of a skill
  with itself is 1, and the similarity does not depend on the order of its arguments.
\<close>

theorem skills_similarity_contract:
  "0 \<le> skills_similarity a b \<and> skills_similarity a b \<le> 1
   \<and> skills_similarity a a = 1
   \<and> skills_similarity a b = skills_similarity b a"
  using skills_similarity_range [of a b] skills_similarity_sym [of a b]
  by (simp add: skills_similarity_def)

theorem skills_similarity_contract_witness:
  "skills_similarity ''React'' ''vue'' = 7 / 10
   \<and> skills_similarity ''vue'' ''React'' = 7 / 10
   \<and> skills_similarity ''java'' ''JavaScript'' = 8 / 10
   \<and> skills_similarity ''abc'' ''abd'' = 1 / 2
   \<and> skills_similarity '''' '''' = 1"
proof -
  have "skills_similarity ''React'' ''vue'' = 7 / 10"
    and "skills_similarity ''java'' ''JavaScript'' = 8 / 10"
    and "skills_similarity ''abc'' ''abd'' = 1 / 2"
    by code_simp+
  then show ?thesis
    using skills_similarity_contract [of "''vue''" "''React''"]
      skills_similarity_contract [of "''''" "''''"]
    by simp
qed

subsection \<open>Batch scoring\<close>

lemma score_each_set:
  "(r, sd) \<in> set (score_each w rs job) \<longleftrightarrow> r \<in> set rs \<and> score_resume w r job = Inr sd"
  by (induction rs) (auto split: sum.splits)

lemma score_each_mset:
  "mset (score_each w rs job) =
     {#(r, projr (score_resume w r job)).
        r \<in># filter_mset (\<lambda>r. \<not> isl (score_resume w r job)) (mset rs)#}"
  by (induction rs) (auto split: sum.splits)

lemma sort_key_descending:
  fixes f :: "'a \<Rightarrow> real"
  shows "sorted_wrt (\<lambda>x y. f x \<ge> f y) (sort_key (\<lambda>x. - f x) xs)"
proof -
  have "sorted (map (\<lambda>x. - f x) (sort_key (\<lambda>x. - f x) xs))"
    by (rule sorted_sort_key)
  then show ?thesis
    by (simp add: sorted_map)
qed

text \<open>
  Claim C5. Batch scoring returns the resumes whose scoring succeeded, each with its
  scores and as often as it occurs in the input, in descending order of the total score;
  a resume whose scoring raises is left out, and every resume whose scoring succeeds is in
  the result whatever happens to the others.
\<close>

theorem batch_score_resumes_sorted_isolated:
  "sorted_wrt (\<lambda>x y. total_score (snd x) \<ge> total_score (snd y)) (batch_score_resumes w rs job)
   \<and> mset (batch_score_resumes w rs job) =
       {#(r, projr (score_resume w r job)).
          r \<in># filter_mset (\<lambda>r. \<not> isl (score_resume w r job)) (mset rs)#}
   \<and> (\<forall>r \<in> set rs. \<forall>sd. score_resume w r job = Inr sd \<longrightarrow>
          (r, sd) \<in> set (batch_score_resumes w rs job))
   \<and> (\<forall>r \<in> set rs. \<forall>e. score_resume w r job = Inl e \<longrightarrow>
          r \<notin> fst ` set (batch_score_resumes w rs job))"
  unfolding batch_score_resumes_def
  using sort_key_descending [of "\<lambda>x. total_score (snd x)"]
  by (auto simp: score_each_mset [symmetric] score_each_set)

theorem batch_score_resumes_sorted_isolated_witness:
  "map (\<lambda>x. total_score (snd x))
       (batch_score_resumes skills_only [cand40, cand_bad, cand90, cand70] letters_job)
     = [90, 70, 40]
   \<and> map fst (batch_score_resumes skills_only [cand40, cand_bad, cand90, cand70] letters_job)
     = [cand90, cand70, cand40]
   \<and> score_resume skills_only cand_bad letters_job = Inl ValueError
   \<and> cand_bad \<notin> fst ` set (batch_score_resumes skills_only [cand40, cand_bad, cand90, cand70] letters_job)"
proof -
  have a: "map (\<lambda>x. total_score (snd x))
       (batch_score_resumes skills_only [cand40, cand_bad, cand90, cand70] letters_job)
     = [90, 70, 40]"
    by code_simp
  have b: "map fst (batch_score_resumes skills_only [cand40, cand_bad, cand90, cand70] letters_job)
     = [cand90, cand70, cand40]"
    by code_simp
  have c: "score_resume skills_only cand_bad letters_job = Inl ValueError"
    by code_simp
  have "cand_bad \<in> set [cand40, cand_bad, cand90, cand70]"
    by simp
  with c have d: "cand_bad \<notin> fst ` set (batch_score_resumes skills_only [cand40, cand_bad, cand90, cand70] letters_job)"
    using batch_score_resumes_sorted_isolated
      [of skills_only "[cand40, cand_bad, cand90, cand70]" letters_job]
    by blast
  from a b c d show ?thesis
    by blast
qed

subsection \<open>Rounded total and recommendation\<close>

lemma round1_below_integer:
  assumes "of_int k - 1 / 20 \<le> t" and "t < of_int k"
  shows "round1 t = of_int k"
proof -
  have f: "\<lfloor>t * 10\<rfloor> = 10 * k - 1"
    using assms by (simp add: floor_eq_iff)
  have "odd (10 * k - 1)"
    by simp
  with assms f show ?thesis
    by (simp add: round1_def Let_def)
qed

text \<open>
  Claim C10. The record returned by \<open>score_resume\<close> reports the weighted total rounded to
  one decimal, and the recommendation computed from the total before rounding. A total in
  \<open>[84.95, 85)\<close> is therefore reported as 85.0 with the recommendation of the band below
  85, and likewise below 70, 55 and 40.
\<close>

theorem recommendation_from_unrounded_total:
  assumes "score_experience resume job = Inr e"
    and "t = weighted_total w (score_skills resume job) e (score_education resume job)"
  shows "\<exists>sd. score_resume w resume job = Inr sd
     \<and> total_score sd = round1 t \<and> recommendation sd = generate_recommendation t
     \<and> (84.95 \<le> t \<and> t < 85 \<longrightarrow> total_score sd = 85 \<and> recommendation sd = GoodMatch)
     \<and> (69.95 \<le> t \<and> t < 70 \<longrightarrow> total_score sd = 70 \<and> recommendation sd = FairMatch)
     \<and> (54.95 \<le> t \<and> t < 55 \<longrightarrow> total_score sd = 55 \<and> recommendation sd = PoorMatch)
     \<and> (39.95 \<le> t \<and> t < 40 \<longrightarrow> total_score sd = 40 \<and> recommendation sd = VeryPoorMatch)"
proof -
  have r85: "84.95 \<le> t \<and> t < 85 \<longrightarrow> round1 t = 85"
    using round1_below_integer [of 85 t] by simp
  have r70: "69.95 \<le> t \<and> t < 70 \<longrightarrow> round1 t = 70"
    using round1_below_integer [of 70 t] by simp
  have r55: "54.95 \<le> t \<and> t < 55 \<longrightarrow> round1 t = 55"
    using round1_below_integer [of 55 t] by simp
  have r40: "39.95 \<le> t \<and> t < 40 \<longrightarrow> round1 t = 40"
    using round1_below_integer [of 40 t] by simp
  have "score_resume w resume job =
      Inr \<lparr>total_score = round1 t,
           skills_score = round1 (score_skills resume job),
           experience_score = round1 e,
           education_score = round1 (score_education resume job),
           recommendation = generate_recommendation t\<rparr>"
    using assms by (simp add: score_resume_def Let_def)
  with r85 r70 r55 r40 show ?thesis
    by (auto simp: generate_recommendation_def)
qed

theorem recommendation_from_unrounded_total_witness:
  "(\<exists>sd. score_resume init_weights near85_resume near85_job = Inr sd
      \<and> total_score sd = 85 \<and> recommendation sd = GoodMatch)
   \<and> (\<exists>sd. score_resume init_weights near70_resume near70_job = Inr sd
      \<and> total_score sd = 70 \<and> recommendation sd = FairMatch)
   \<and> (\<exists>sd. score_resume init_weights near55_resume near55_job = Inr sd
      \<and> total_score sd = 55 \<and> recommendation sd = PoorMatch)
   \<and> (\<exists>sd. score_resume init_weights near40_resume near40_job = Inr sd
      \<and> total_score sd = 40 \<and> recommendation sd = VeryPoorMatch)"
proof -
  have e85: "score_experience near85_resume near85_job = Inr 49.92"
    and t85: "84.976 = weighted_total init_weights (score_skills near85_resume near85_job)
        49.92 (score_education near85_resume near85_job)"
    by code_simp+
  have e70: "score_experience near70_resume near70_job = Inr 33.2"
    and t70: "69.96 = weighted_total init_weights (score_skills near70_resume near70_job)
        33.2 (score_education near70_resume near70_job)"
    by code_simp+
  have e55: "score_experience near55_resume near55_job = Inr 29.9"
    and t55: "54.97 = weighted_total init_weights (score_skills near55_resume near55_job)
        29.9 (score_education near55_resume near55_job)"
    by code_simp+
  have e40: "score_experience near40_resume near40_job = Inr 29.9"
    and t40: "39.97 = weighted_total init_weights (score_skills near40_resume near40_job)
        29.9 (score_education near40_resume near40_job)"
    by code_simp+
  have "\<exists>sd. score_resume init_weights near85_resume near85_job = Inr sd
      \<and> total_score sd = 85 \<and> recommendation sd = GoodMatch"
    using recommendation_from_unrounded_total [OF e85 t85] by auto
  moreover have "\<exists>sd. score_resume init_weights near70_resume near70_job = Inr sd
      \<and> total_score sd = 70 \<and> recommendation sd = FairMatch"
    using recommendation_from_unrounded_total [OF e70 t70] by auto
  moreover have "\<exists>sd. score_resume init_weights near55_resume near55_job = Inr sd
      \<and> total_score sd = 55 \<and> recommendation sd = PoorMatch"
    using recommendation_from_unrounded_total [OF e55 t55] by auto
  moreover have "\<exists>sd. score_resume init_weights near40_resume near40_job = Inr sd
      \<and> total_score sd = 40 \<and> recommendation sd = VeryPoorMatch"
    using recommendation_from_unrounded_total [OF e40 t40] by auto
  ultimately show ?thesis
    by blast
qed

section \<open>Properties of the field extractor\<close>

subsection \<open>Text normalisation\<close>

lemma isspace_space [simp]: "isspace (CHR '' '')"
  by (simp add: isspace_def code_point_def)

lemma strip_rstrip: "strip s = rstrip (dropWhile isspace s)"
  by (simp add: strip_def rstrip_def)

lemma collapse_word:
  "\<forall>c \<in> set u. \<not> isspace c \<Longrightarrow> collapse_whitespace (u @ v) = u @ collapse_whitespace v"
  by (induction u) auto

lemma rstrip_word:
  assumes "u \<noteq> []" and "\<not> isspace (last u)"
  shows "rstrip (x @ u @ y) = x @ u @ rstrip y"
proof -
  have "dropWhile isspace (rev u) = rev u"
    using assms by (cases u rule: rev_cases) auto
  moreover have "\<not> (\<forall>c \<in> set u. isspace c)"
    using assms last_in_set by blast
  ultimately show ?thesis
    by (auto simp: rstrip_def dropWhile_append)
qed

lemma split_words_blank: "\<forall>c \<in> set s. isspace c \<Longrightarrow> split_words s = []"
  by (induction s) auto

lemma split_words_dropWhile: "split_words (dropWhile isspace s) = split_words s"
  by (induction s) auto

lemma collapse_dropWhile:
  "rstrip (CHR '' '' # collapse_whitespace (dropWhile isspace s)) =
     concat (map (\<lambda>x. CHR '' '' # x) (split_words s))"
proof (induction s rule: split_words.induct)
  case 1
  show ?case by (simp add: rstrip_def)
next
  case (2 c cs)
  show ?case
  proof (cases "isspace c")
    case True
    with 2 show ?thesis by simp
  next
    case False
    define u where "u = c # takeWhile (\<lambda>x. \<not> isspace x) cs"
    define v where "v = dropWhile (\<lambda>x. \<not> isspace x) cs"
    have uv: "c # cs = u @ v" by (simp add: u_def v_def)
    have u: "\<forall>x \<in> set u. \<not> isspace x" "u \<noteq> []"
      using False by (auto simp: u_def dest: set_takeWhileD)
    then have lastu: "\<not> isspace (last u)" using last_in_set by blast
    have ih: "rstrip (CHR '' '' # collapse_whitespace (dropWhile isspace v)) =
       concat (map (\<lambda>x. CHR '' '' # x) (split_words v))"
      using 2(2) [OF False] by (simp add: v_def)
    have tail: "rstrip (collapse_whitespace v) = concat (map (\<lambda>x. CHR '' '' # x) (split_words v))"
    proof (cases v)
      case Nil
      then show ?thesis by (simp add: rstrip_def)
    next
      case (Cons d ds)
      then have "isspace d"
        using hd_dropWhile [of "\<lambda>x. \<not> isspace x" cs] by (simp add: v_def)
      with Cons ih show ?thesis by simp
    qed
    have cw: "collapse_whitespace (c # cs) = u @ collapse_whitespace v"
      unfolding uv by (rule collapse_word [OF u(1)])
    have "rstrip (CHR '' '' # collapse_whitespace (dropWhile isspace (c # cs)))
        = rstrip ([CHR '' ''] @ u @ collapse_whitespace v)"
      using False cw by simp
    also have "\<dots> = [CHR '' ''] @ u @ rstrip (collapse_whitespace v)"
      using rstrip_word [OF u(2) lastu] by blast
    also have "\<dots> = concat (map (\<lambda>x. CHR '' '' # x) (split_words (c # cs)))"
      using False tail by (simp add: u_def v_def)
    finally show ?thesis .
  qed
qed

lemma strip_collapse_dropWhile:
  "strip (collapse_whitespace (dropWhile isspace s)) = strip (collapse_whitespace s)"
proof (cases s)
  case Nil
  then show ?thesis by simp
next
  case (Cons c cs)
  show ?thesis
  proof (cases "isspace c")
    case True
    with Cons show ?thesis by (simp add: strip_def)
  next
    case False
    with Cons show ?thesis by simp
  qed
qed

lemma clean_text_words: "clean_text t = join_space (split_words t)"
proof (cases "dropWhile isspace t")
  case Nil
  then have "split_words t = []"
    by (simp add: split_words_blank)
  moreover have "clean_text t = []"
    using strip_collapse_dropWhile [of t] Nil by (simp add: clean_text_def strip_def)
  ultimately show ?thesis by simp
next
  case (Cons c cs)
  then have c: "\<not> isspace c"
    using hd_dropWhile [of isspace t] by simp
  define u where "u = c # takeWhile (\<lambda>x. \<not> isspace x) cs"
  define v where "v = dropWhile (\<lambda>x. \<not> isspace x) cs"
  have uv: "c # cs = u @ v" by (simp add: u_def v_def)
  have u: "\<forall>x \<in> set u. \<not> isspace x" "u \<noteq> []"
    using c by (auto simp: u_def dest: set_takeWhileD)
  then have lastu: "\<not> isspace (last u)" using last_in_set by blast
  have tail: "rstrip (collapse_whitespace v) = concat (map (\<lambda>x. CHR '' '' # x) (split_words v))"
  proof (cases v)
    case Nil
    then show ?thesis by (simp add: rstrip_def)
  next
    case (Cons d ds)
    then have "isspace d"
      using hd_dropWhile [of "\<lambda>x. \<not> isspace x" cs] by (simp add: v_def)
    with Cons collapse_dropWhile [of v] show ?thesis by simp
  qed
  have "clean_text t = strip (collapse_whitespace (c # cs))"
    using strip_collapse_dropWhile [of t] Cons by (simp add: clean_text_def)
  also have "\<dots> = rstrip ([] @ u @ collapse_whitespace v)"
    unfolding uv collapse_word [OF u(1)] using u c by (cases u) (simp_all add: strip_rstrip)
  also have "\<dots> = u @ rstrip (collapse_whitespace v)"
    using rstrip_word [OF u(2) lastu, of "[]"] by simp
  also have "\<dots> = join_space (split_words (c # cs))"
    using c tail by (simp add: u_def v_def)
  also have "\<dots> = join_space (split_words t)"
    using split_words_dropWhile [of t] Cons by simp
  finally show ?thesis .
qed

lemma split_words_good:
  "w \<in> set (split_words s) \<Longrightarrow> w \<noteq> [] \<and> (\<forall>c \<in> set w. \<not> isspace c)"
proof (induction s rule: split_words.induct)
  case 1
  then show ?case by simp
next
  case (2 c cs)
  show ?case
  proof (cases "isspace c")
    case True
    with 2 show ?thesis by simp
  next
    case False
    with 2(3) have "w = c # takeWhile (\<lambda>x. \<not> isspace x) cs
        \<or> w \<in> set (split_words (dropWhile (\<lambda>x. \<not> isspace x) cs))"
      by simp
    then show ?thesis
    proof
      assume "w = c # takeWhile (\<lambda>x. \<not> isspace x) cs"
      with False show ?thesis
        by (auto dest: set_takeWhileD)
    next
      assume "w \<in> set (split_words (dropWhile (\<lambda>x. \<not> isspace x) cs))"
      with 2(2) [OF False] show ?thesis
        by blast
    qed
  qed
qed

lemma split_words_word:
  assumes "w \<noteq> []" and "\<forall>c \<in> set w. \<not> isspace c" and "rest = [] \<or> isspace (hd rest)"
  shows "split_words (w @ rest) = w # split_words rest"
proof -
  obtain c cs where w: "w = c # cs"
    using assms(1) by (cases w) auto
  have stop: "takeWhile (\<lambda>x. \<not> isspace x) rest = []" "dropWhile (\<lambda>x. \<not> isspace x) rest = rest"
    using assms(3) by (cases rest; simp)+
  have tw: "takeWhile (\<lambda>x. \<not> isspace x) (cs @ rest) = cs"
    using assms(2) w stop by (simp add: takeWhile_append)
  have dw: "dropWhile (\<lambda>x. \<not> isspace x) (cs @ rest) = rest"
    using assms(2) w stop by (simp add: dropWhile_append)
  have "\<not> isspace c"
    using assms(2) w by simp
  then show ?thesis
    by (simp add: w tw dw)
qed

lemma spaced_head:
  "concat (map (\<lambda>x. CHR '' '' # x) ws) = [] \<or> isspace (hd (concat (map (\<lambda>x. CHR '' '' # x) ws)))"
  by (cases ws) simp_all

lemma split_words_tail:
  assumes "\<forall>w \<in> set ws. w \<noteq> [] \<and> (\<forall>c \<in> set w. \<not> isspace c)"
  shows "split_words (concat (map (\<lambda>x. CHR '' '' # x) ws)) = ws"
  using assms
proof (induction ws)
  case Nil
  then show ?case by simp
next
  case (Cons w ws)
  have "split_words (w @ concat (map (\<lambda>x. CHR '' '' # x) ws))
      = w # split_words (concat (map (\<lambda>x. CHR '' '' # x) ws))"
    using Cons.prems spaced_head [of ws] by (intro split_words_word) simp_all
  with Cons show ?case by simp
qed

lemma split_words_join:
  assumes "\<forall>w \<in> set ws. w \<noteq> [] \<and> (\<forall>c \<in> set w. \<not> isspace c)"
  shows "split_words (join_space ws) = ws"
proof (cases ws)
  case Nil
  then show ?thesis by simp
next
  case (Cons w rest)
  have "split_words (w @ concat (map (\<lambda>x. CHR '' '' # x) rest))
      = w # split_words (concat (map (\<lambda>x. CHR '' '' # x) rest))"
    using assms Cons spaced_head [of rest] by (intro split_words_word) simp_all
  with assms Cons show ?thesis
    by (simp add: split_words_tail)
qed

text \<open>
  Claim C8. The normalised text is the words of the input, unchanged and in their order,
  separated by single spaces, with no whitespace before the first or after the last: every
  run of whitespace (newlines included) has become one space, the ends are stripped, and
  nothing else has changed. Normalising a normalised text returns it unchanged.
\<close>

theorem clean_text_normalises:
  "clean_text t = join_space (split_words t) \<and> clean_text (clean_text t) = clean_text t"
  using split_words_join [of "split_words t"] split_words_good [of _ t]
  by (simp add: clean_text_words)

theorem clean_text_normalises_witness:
  "clean_text (''  Jane'' @ [CHR 0x0A, CHR 0x09] @ ''Doe   Python '') = ''Jane Doe Python''
   \<and> join_space (split_words (''  Jane'' @ [CHR 0x0A, CHR 0x09] @ ''Doe   Python ''))
       = ''Jane Doe Python''
   \<and> clean_text ''Jane Doe Python'' = ''Jane Doe Python''"
proof -
  let ?t = "''  Jane'' @ [CHR 0x0A, CHR 0x09] @ ''Doe   Python ''"
  have e: "join_space (split_words ?t) = ''Jane Doe Python''"
    by code_simp
  note n = clean_text_normalises [of ?t]
  from n have "clean_text ?t = join_space (split_words ?t)"
    by (rule conjunct1)
  then have a: "clean_text ?t = ''Jane Doe Python''"
    using e by (rule trans)
  from n have "clean_text (clean_text ?t) = clean_text ?t"
    by (rule conjunct2)
  then have b: "clean_text ''Jane Doe Python'' = ''Jane Doe Python''"
    unfolding a .
  from a e b show ?thesis
    by (intro conjI)
qed

subsection \<open>Phone\<close>

text \<open>
  Claim C1. Each phone pattern has one capturing group, the optional country code, and
  \<open>re.findall\<close> returns the content of that group instead of the matched text. For the
  text \<open>555-123-4567\<close> the first pattern matches and the result is the empty string;
  for \<open>Call +1 555-123-4567\<close> the result is the country code \<open>+1\<close> with the
  separator after it; the sentinel comes back where no pattern matches.
\<close>

theorem extract_phone_returns_group:
  "extract_phone ''555-123-4567'' = []
   \<and> extract_phone ''Call +1 555-123-4567'' = ''+1 ''
   \<and> extract_phone ''no number here'' = ''Phone not found''"
  by code_simp

subsection \<open>Education\<close>

lemma format_education_level_positive:
  assumes "0 < level"
  shows "format_education_level level \<noteq> ''High School''"
proof -
  from assms consider "level = 1" | "level = 2" | "level = 3" | "level = 4" | "4 < level"
    by linarith
  then show ?thesis
    by cases (simp_all add: format_education_level_def get_or_def)
qed

lemma education_loop_never_high_school:
  "snd st \<noteq> ''High School'' \<Longrightarrow> snd (education_loop kws low st) \<noteq> ''High School''"
proof (induction kws low st rule: education_loop.induct)
  case (1 low st)
  then show ?case by simp
next
  case (2 education level rest low highest_level highest_education)
  show ?case
  proof (cases "sublist education low \<and> level > highest_level")
    case True
    then have "0 < level" by simp
    then have "format_education_level level \<noteq> ''High School''"
      by (rule format_education_level_positive)
    with 2 True show ?thesis by simp
  next
    case False
    with 2 show ?thesis by auto
  qed
qed

lemma extract_education_never_high_school: "extract_education t \<noteq> ''High School''"
  unfolding extract_education_def by (rule education_loop_never_high_school) simp

text \<open>
  Claim C2. The loop starts with the highest level 0 and replaces it only by a strictly
  higher level, so a keyword of level 0 never sets the label: the texts
  \<open>high school\<close> and \<open>Secondary school graduation\<close>, whose keywords are all of level
  0, yield \<open>Not specified\<close> and not \<open>High School\<close>.
\<close>

theorem extract_education_skips_level_zero:
  "extract_education ''high school'' = ''Not specified''
   \<and> extract_education ''Secondary school graduation'' = ''Not specified''"
  by code_simp

subsection \<open>Skills\<close>

lemma lower_title_keyword: "k \<in> set skill_keywords \<Longrightarrow> lower (title k) = k"
proof -
  have "map (\<lambda>k. lower (title k)) skill_keywords = map (\<lambda>k. k) skill_keywords"
    by code_simp
  then have "\<forall>k \<in> set skill_keywords. lower (title k) = k"
    by (simp only: map_eq_conv)
  then show "k \<in> set skill_keywords \<Longrightarrow> lower (title k) = k"
    by blast
qed

lemma extract_skills_shape:
  "sorted (extract_skills t) \<and> distinct (map lower (extract_skills t))
   \<and> length (extract_skills t) \<le> 50
   \<and> set (extract_skills t) \<subseteq>
        title ` {k \<in> set skill_keywords. search_word (lower k) (lower t)}"
proof -
  define found where
    "found = map title (filter (\<lambda>skill. search_word (lower skill) (lower t)) skill_keywords)"
  have es: "extract_skills t = take 50 (sort (remdups found))"
    by (simp add: extract_skills_def found_def Let_def)
  have sub: "set (extract_skills t) \<subseteq> set found"
    unfolding es using set_take_subset [of 50 "sort (remdups found)"] by simp
  have found: "set found = title ` {k \<in> set skill_keywords. search_word (lower k) (lower t)}"
    by (auto simp: found_def)
  have "inj_on lower (set found)"
  proof (rule inj_on_inverseI [where g = title])
    fix x assume "x \<in> set found"
    then obtain k where "k \<in> set skill_keywords" "x = title k"
      unfolding found by blast
    then show "title (lower x) = x"
      by (simp add: lower_title_keyword)
  qed
  then have inj: "inj_on lower (set (extract_skills t))"
    using sub by (rule inj_on_subset)
  have "distinct (extract_skills t)"
    unfolding es by simp
  with inj have "distinct (map lower (extract_skills t))"
    by (simp add: distinct_map)
  moreover have "sorted (extract_skills t)"
    unfolding es by (simp add: sorted_wrt_take)
  moreover have "length (extract_skills t) \<le> 50"
    unfolding es by simp
  ultimately show ?thesis
    using sub found by simp
qed

lemma match_word_delimited:
  assumes "kw \<noteq> []" and "isword (hd kw)" and "isword (last kw)"
  shows "match_word_at kw prev s = delimited_at kw prev s"
proof (cases "prefix kw s")
  case True
  then obtain rest where "s = kw @ rest"
    by (auto simp: prefix_def)
  with assms have "first_char s = Some (hd kw)"
    by (cases kw) (simp_all add: first_char_def)
  with assms True show ?thesis
    by (simp add: match_word_at_def delimited_at_def word_boundary_def is_word_at_def)
next
  case False
  then show ?thesis
    by (simp add: match_word_at_def delimited_at_def)
qed

lemma search_word_whole_word:
  assumes "kw \<noteq> []" and "isword (hd kw)" and "isword (last kw)"
  shows "search_word kw t = whole_word_occurs kw t"
proof -
  have "search_word_from kw prev s = whole_word_from kw prev s" for prev s
    by (induction s arbitrary: prev) (simp_all add: match_word_delimited [OF assms])
  then show ?thesis
    by (simp add: search_word_def whole_word_occurs_def)
qed

lemma extract_skills_python_example: "extract_skills ''Python python PYTHON'' = [''Python'']"
  by code_simp

text \<open>
  Claim C9. The pattern ends in \<open>\b\<close>, which after a character that is not a word
  character holds only before a word character. The term \<open>c++\<close> stands as a whole word
  in the text \<open>C++, Java\<close>, yet the extraction returns \<open>Java\<close> alone.
\<close>

theorem extract_skills_misses_whole_word:
  "whole_word_occurs ''c++'' (lower ''C++, Java'')
   \<and> \<not> search_word ''c++'' (lower ''C++, Java'')
   \<and> extract_skills ''C++, Java'' = [''Java'']"
  by code_simp

end
